theory Spec2Isabelle
  imports Complex_Main
begin

section \<open>JavaScript values\<close>

text \<open>
  The engine is \<^verbatim>\<open>server/services/creditScoringService.js\<close> together with the three
  methods of \<^verbatim>\<open>server/models/CreditAnalysis.js\<close>.

  A JavaScript number is modelled as an exact real, or \<open>NaN\<close>: rounding of IEEE doubles is
  left out, the not-a-number value is kept because a division by zero produces it and
  every comparison and truthiness test treats it specially. \<open>undefined\<close> in a numeric
  field behaves like \<open>NaN\<close> in every use the engine makes of it, and is modelled so.
\<close>

datatype number = Num real | NaN

text \<open>Truthiness of a number: \<open>0\<close> and \<open>NaN\<close> are falsy.\<close>

fun truthy :: "number \<Rightarrow> bool" where
  "truthy (Num r) = (r \<noteq> 0)"
| "truthy NaN = False"

text \<open>
  \<open>a + b\<close>, \<open>a / k\<close> (only for a divisor that is not zero: the literal 2 and the length of
  a list that is not empty), \<open>Math.round\<close> and the comparisons, with NaN propagating.
\<close>

fun plus_number :: "number \<Rightarrow> number \<Rightarrow> number" where
  "plus_number (Num a) (Num b) = Num (a + b)"
| "plus_number _ _ = NaN"

fun divide_number :: "number \<Rightarrow> real \<Rightarrow> number" where
  "divide_number (Num a) k = Num (a / k)"
| "divide_number NaN k = NaN"

fun Math_round :: "number \<Rightarrow> number" where
  "Math_round (Num a) = Num (of_int (round a))"
| "Math_round NaN = NaN"

fun less_number :: "number \<Rightarrow> real \<Rightarrow> bool" where
  "less_number (Num a) k = (a < k)"
| "less_number NaN k = False"

fun greater_number :: "number \<Rightarrow> real \<Rightarrow> bool" where
  "greater_number (Num a) k = (a > k)"
| "greater_number NaN k = False"

text \<open>
  The intermediate results of a division, before they are clamped: a real, an infinity
  or NaN. \<open>x / 0\<close> is NaN for \<open>x = 0\<close> and an infinity of the sign of \<open>x\<close> otherwise (the
  divisors of the engine are sums started from \<open>+0\<close>, so a zero divisor is \<open>+0\<close>).
\<close>

datatype ieee = Fin real | PosInf | NegInf | Undef

definition js_div :: "real \<Rightarrow> real \<Rightarrow> ieee" where
  "js_div x y =
     (if y \<noteq> 0 then Fin (x / y)
      else if x = 0 then Undef
      else if x > 0 then PosInf else NegInf)"

text \<open>\<open>c * k\<close> for a constant \<open>k > 0\<close>, and \<open>k - c\<close>.\<close>

fun times_pos :: "ieee \<Rightarrow> real \<Rightarrow> ieee" where
  "times_pos (Fin c) k = Fin (c * k)"
| "times_pos PosInf k = PosInf"
| "times_pos NegInf k = NegInf"
| "times_pos Undef k = Undef"

fun minus_from :: "real \<Rightarrow> ieee \<Rightarrow> ieee" where
  "minus_from k (Fin c) = Fin (k - c)"
| "minus_from k PosInf = NegInf"
| "minus_from k NegInf = PosInf"
| "minus_from k Undef = Undef"

text \<open>
  \<open>Math.max(lo, Math.min(hi, x))\<close>: an infinity is clamped like any other value out of
  range, NaN stays NaN.
\<close>

fun Math_max_min :: "real \<Rightarrow> real \<Rightarrow> ieee \<Rightarrow> number" where
  "Math_max_min lo hi (Fin c) = Num (max lo (min hi c))"
| "Math_max_min lo hi PosInf = Num (max lo hi)"
| "Math_max_min lo hi NegInf = Num lo"
| "Math_max_min lo hi Undef = NaN"

text \<open>Exceptions, as values: the kind and the message or the identifier.\<close>

datatype js_error = ReferenceError string | TypeError string | Error string

section \<open>The data model\<close>

text \<open>The three-valued enums of the schema (risk category, severity, strength, usage).\<close>

datatype level = Low | Medium | High

datatype plan_type = Prepaid | Postpaid | Unknown

text \<open>
  A \<open>Date\<close>, by what the engine reads of it: the first seven characters of
  \<open>toISOString()\<close>, \<open>getHours()\<close> and \<open>getDay()\<close>.
\<close>

record js_date =
  iso_month :: string
  hours :: nat
  day :: nat

text \<open>
  The raw records. A field the engine dereferences is optional: \<open>None\<close> is a field that is
  absent (or not of the type whose method is called), and the call on it raises TypeError.
\<close>

record sms_record =
  message :: "string option"
  date :: "js_date option"

record upi_record =
  upi_amount :: number
  upi_merchant :: "string option"
  upi_timestamp :: "js_date option"

record mobile_record =
  mobile_type :: string
  mobile_amount :: number

record user_data =
  smsData :: "sms_record list option"
  upiData :: "upi_record list option"
  mobileData :: "mobile_record list option"
  monthlyIncome :: number
  occupation :: string

record salary_credit =
  salary_amount :: real
  salary_date :: "js_date option"
  salary_source :: "string option"

record recurring_payment =
  recurring_merchant :: string
  recurring_amount :: real
  frequency :: string
  lastPayment :: js_date

record sms_analysis =
  totalTransactions :: nat
  creditTransactions :: nat
  debitTransactions :: nat
  averageBalance :: real
  balanceStability :: number
  regularityScore :: number
  merchantDiversity :: nat
  salaryCredits :: "salary_credit list"
  recurringPayments :: "recurring_payment list"

record merchant_category =
  category :: string
  transactionCount :: nat
  totalAmount :: number

record upi_analysis =
  monthlyTransactionCount :: nat
  averageTransactionAmount :: number
  totalVolume :: number
  upi_paymentRegularity :: number
  digitalFootprintScore :: nat
  merchantCategories :: "merchant_category list"
  peakTransactionHours :: "nat list"
  weekdayVsWeekendRatio :: number

record mobile_analysis =
  rechargeFrequency :: nat
  averageRechargeAmount :: number
  planType :: plan_type
  dataUsagePattern :: level
  consistencyScore :: number

record component =
  score :: number
  weight :: number
  factors :: "string list"

record score_components =
  transactionBehavior :: component
  paymentRegularity :: component
  digitalEngagement :: component
  financialStability :: component
  socialSignals :: component

record red_flag =
  flag_type :: string
  severity :: level
  flag_description :: string
  flag_impact :: int

record positive_indicator =
  indicator_type :: string
  strength :: level
  indicator_description :: string
  indicator_impact :: int

record loan_recommendation =
  eligible :: bool
  maxLoanAmount :: nat
  recommendedAmount :: nat
  suggestedInterestRate :: real
  maxTenure :: nat
  conditions :: "string list"

record date_range =
  range_start :: "js_date option"
  range_end :: "js_date option"

record data_source =
  source :: string
  dataPoints :: nat
  dateRange :: date_range

text \<open>
  The \<open>CreditAnalysis\<close> document. \<open>alternativeCreditScore\<close>, \<open>riskCategory\<close>,
  \<open>confidenceLevel\<close> and \<open>loanRecommendation\<close> have no default in the schema: \<open>None\<close> is
  \<open>undefined\<close>. A score, when set, is the result of \<open>Math.round\<close>, an integer.
\<close>

record credit_analysis =
  userId :: string
  smsAnalysis :: sms_analysis
  upiAnalysis :: upi_analysis
  mobileUsage :: mobile_analysis
  creditScoreComponents :: score_components
  alternativeCreditScore :: "int option"
  confidenceLevel :: "real option"
  riskCategory :: "level option"
  analysisDate :: nat
  dataSourcesUsed :: "data_source list"
  redFlags :: "red_flag list"
  positiveIndicators :: "positive_indicator list"
  loanRecommendation :: "loan_recommendation option"

section \<open>The methods of the CreditAnalysis model\<close>

text \<open>
  \<open>calculateCreditScore\<close>: the loop over \<open>Object.keys(components)\<close> adds a component to
  both sums only if \<open>component.score && component.weight\<close>; the early return leaves the
  document as it was.
\<close>

definition component_list :: "score_components \<Rightarrow> component list" where
  "component_list cs =
     [transactionBehavior cs, paymentRegularity cs, digitalEngagement cs,
      financialStability cs, socialSignals cs]"

fun accumulate :: "real \<times> real \<Rightarrow> component \<Rightarrow> real \<times> real" where
  "accumulate (weightedScore, totalWeight) c =
     (if truthy (score c) \<and> truthy (weight c) then
        (case (score c, weight c) of
           (Num s, Num w) \<Rightarrow> (weightedScore + s * w, totalWeight + w)
         | _ \<Rightarrow> (weightedScore, totalWeight))
      else (weightedScore, totalWeight))"

definition calculateCreditScore :: "credit_analysis \<Rightarrow> int \<times> credit_analysis" where
  "calculateCreditScore this =
     (let (weightedScore, totalWeight) =
            foldl accumulate (0, 0) (component_list (creditScoreComponents this))
      in if totalWeight = 0 then (300, this)
         else
           let normalizedScore = weightedScore / totalWeight;
               s = round (300 + normalizedScore * 6)
           in (s, this\<lparr>alternativeCreditScore := Some s\<rparr>))"

text \<open>
  \<open>determineRiskCategory\<close>: a comparison with \<open>undefined\<close> is false, so an unset score
  falls through to the last branch.
\<close>

definition at_least :: "int option \<Rightarrow> int \<Rightarrow> bool" where
  "at_least s k = (case s of None \<Rightarrow> False | Some v \<Rightarrow> v \<ge> k)"

definition determineRiskCategory :: "credit_analysis \<Rightarrow> level \<times> credit_analysis" where
  "determineRiskCategory this =
     (let s = alternativeCreditScore this;
          r = (if at_least s 750 then Low
               else if at_least s 600 then Medium
               else High)
      in (r, this\<lparr>riskCategory := Some r\<rparr>))"

text \<open>\<open>generateLoanRecommendation\<close>.\<close>

definition initial_recommendation :: loan_recommendation where
  "initial_recommendation =
     \<lparr>eligible = False, maxLoanAmount = 0, recommendedAmount = 0,
      suggestedInterestRate = 24, maxTenure = 6, conditions = []\<rparr>"

definition push :: "'a list \<Rightarrow> 'a \<Rightarrow> 'a list" where
  "push xs x = xs @ [x]"

definition generateLoanRecommendation ::
  "credit_analysis \<Rightarrow> loan_recommendation \<times> credit_analysis" where
  "generateLoanRecommendation this =
     (let s = alternativeCreditScore this;
          risk = riskCategory this;
          recommendation = initial_recommendation;
          recommendation =
            (if at_least s 600 then
               let recommendation = recommendation\<lparr>eligible := True\<rparr>;
                   recommendation =
                     (if at_least s 750 then
                        recommendation\<lparr>maxLoanAmount := 100000, recommendedAmount := 50000,
                          suggestedInterestRate := 12, maxTenure := 24\<rparr>
                      else if at_least s 650 then
                        recommendation\<lparr>maxLoanAmount := 50000, recommendedAmount := 25000,
                          suggestedInterestRate := 15, maxTenure := 18\<rparr>
                      else
                        recommendation\<lparr>maxLoanAmount := 25000, recommendedAmount := 15000,
                          suggestedInterestRate := 18, maxTenure := 12\<rparr>);
                   recommendation =
                     (if length (redFlags this) > 0 then
                        recommendation\<lparr>conditions :=
                          push (conditions recommendation) ''Additional verification required''\<rparr>
                      else recommendation)
               in (if risk = Some Medium then
                     recommendation\<lparr>conditions :=
                       push (conditions recommendation) ''Regular monitoring of repayment''\<rparr>
                   else recommendation)
             else
               let recommendation = recommendation\<lparr>conditions :=
                     push (conditions recommendation) ''Credit score too low for loan approval''\<rparr>
               in recommendation\<lparr>conditions :=
                     push (conditions recommendation) ''Consider building credit history''\<rparr>)
      in (recommendation, this\<lparr>loanRecommendation := Some recommendation\<rparr>))"

section \<open>Strings and the two regular expressions\<close>

text \<open>
  Strings are ASCII here. \<open>toLowerCase\<close> maps \<open>A\<close>-\<open>Z\<close> to \<open>a\<close>-\<open>z\<close>, \<open>\d\<close> is \<open>0\<close>-\<open>9\<close>,
  \<open>\s\<close> is blank, tab, line feed, vertical tab, form feed or carriage return, and \<open>.\<close>
  is any character but line feed and carriage return.
\<close>

definition lower_char :: "char \<Rightarrow> char" where
  "lower_char c =
     (let n = (of_char c :: nat) in if 65 \<le> n \<and> n \<le> 90 then char_of (n + 32) else c)"

definition toLowerCase :: "string \<Rightarrow> string" where
  "toLowerCase s = map lower_char s"

definition is_digit :: "char \<Rightarrow> bool" where
  "is_digit c = (let n = (of_char c :: nat) in 48 \<le> n \<and> n \<le> 57)"

definition is_space :: "char \<Rightarrow> bool" where
  "is_space c = (of_char c \<in> {32, 9, 10, 11, 12, 13 :: nat})"

definition is_line_terminator :: "char \<Rightarrow> bool" where
  "is_line_terminator c = (of_char c \<in> {10, 13 :: nat})"

definition starts_with :: "string \<Rightarrow> string \<Rightarrow> bool" where
  "starts_with s p = (take (length p) s = p)"

fun String_includes :: "string \<Rightarrow> string \<Rightarrow> bool" where
  "String_includes [] p = (p = [])"
| "String_includes (c # cs) p = (starts_with (c # cs) p \<or> String_includes cs p)"

text \<open>
  \<open>(?:,\d+)*\<close>, greedy: the text it matches at the head of a string, and the rest. No
  later part of the expression is mandatory, so the greedy match is the match.
\<close>

function comma_groups :: "string \<Rightarrow> string \<times> string" where
  "comma_groups s =
     (case s of
        [] \<Rightarrow> ([], s)
      | c # r \<Rightarrow>
          if c = CHR '','' \<and> takeWhile is_digit r \<noteq> [] then
            (let (g, rest) = comma_groups (dropWhile is_digit r)
             in (c # takeWhile is_digit r @ g, rest))
          else ([], s))"
  by pat_completeness auto
termination
  by (relation "measure length") (auto simp: less_Suc_eq_le length_dropWhile_le)

text \<open>\<open>(?:\.\d+)?\<close>, greedy.\<close>

definition fraction :: "string \<Rightarrow> string" where
  "fraction s =
     (case s of
        [] \<Rightarrow> []
      | c # r \<Rightarrow>
          if c = CHR ''.'' \<and> takeWhile is_digit r \<noteq> [] then c # takeWhile is_digit r
          else [])"

text \<open>
  \<open>Rs\.?\s*(\d+(?:,\d+)*(?:\.\d+)?)\<close> with the flag \<open>i\<close>, anchored at the head of the
  string: the capture group, or \<open>None\<close>. Giving back the optional dot or some of the
  blanks never helps, since a digit must follow them.
\<close>

definition amount_at :: "string \<Rightarrow> string option" where
  "amount_at s =
     (if starts_with (toLowerCase s) ''rs'' then
        let r = drop 2 s;
            r = (case r of [] \<Rightarrow> r | c # t \<Rightarrow> if c = CHR ''.'' then t else r);
            r = dropWhile is_space r;
            d = takeWhile is_digit r
        in if d = [] then None
           else
             let (g, rest) = comma_groups (dropWhile is_digit r)
             in Some (d @ g @ fraction rest)
      else None)"

text \<open>\<open>String.prototype.match\<close> without the flag \<open>g\<close>: the leftmost match.\<close>

fun search_amount :: "string \<Rightarrow> string option" where
  "search_amount [] = None"
| "search_amount (c # cs) =
     (case amount_at (c # cs) of Some g \<Rightarrow> Some g | None \<Rightarrow> search_amount cs)"

text \<open>\<open>.*?\<close> followed by the amount: the shortest run of characters of a line.\<close>

fun lazy_amount :: "string \<Rightarrow> string option" where
  "lazy_amount [] = None"
| "lazy_amount (c # cs) =
     (case amount_at (c # cs) of
        Some g \<Rightarrow> Some g
      | None \<Rightarrow> if is_line_terminator c then None else lazy_amount cs)"

fun search_balance :: "string \<Rightarrow> string option" where
  "search_balance [] = None"
| "search_balance (c # cs) =
     (if starts_with (toLowerCase (c # cs)) ''balance'' then
        (case lazy_amount (drop 7 (c # cs)) of
           Some g \<Rightarrow> Some g
         | None \<Rightarrow> search_balance cs)
      else search_balance cs)"

text \<open>\<open>parseFloat(match[1].replace(/,/g, ''))\<close> on a capture group: a decimal numeral.\<close>

definition digits_value :: "string \<Rightarrow> nat" where
  "digits_value ds = foldl (\<lambda>v c. 10 * v + (of_char c - 48)) 0 ds"

definition parseFloat :: "string \<Rightarrow> real" where
  "parseFloat g =
     (let t = filter (\<lambda>c. c \<noteq> CHR '','') g;
          whole = takeWhile is_digit t;
          frac = drop (Suc (length whole)) t
      in real (digits_value whole) + real (digits_value frac) / 10 ^ length frac)"

section \<open>The scoring service: helpers\<close>

text \<open>Sequencing of steps that may raise, and the loop \<open>for (const x of xs)\<close>.\<close>

definition and_then :: "js_error + 'a \<Rightarrow> ('a \<Rightarrow> js_error + 'b) \<Rightarrow> js_error + 'b" where
  "and_then r f = (case r of Inl e \<Rightarrow> Inl e | Inr v \<Rightarrow> f v)"

fun for_of :: "('s \<Rightarrow> 'a \<Rightarrow> js_error + 's) \<Rightarrow> 's \<Rightarrow> 'a list \<Rightarrow> js_error + 's" where
  "for_of body st [] = Inr st"
| "for_of body st (x # xs) =
     (case body st x of Inl e \<Rightarrow> Inl e | Inr st' \<Rightarrow> for_of body st' xs)"

text \<open>
  The service calls eleven functions that the module neither declares nor imports. They
  are parameters of the model: a scope binds each of these identifiers to a function, or
  leaves it unbound. Evaluating an unbound identifier raises ReferenceError. The scope of
  the module as it is written is \<open>module_scope\<close>, where all eleven are unbound; the
  declarations of the file are those of the functions modelled below, \<open>CreditAnalysis\<close>
  and \<open>analyzeSMSData\<close>.
\<close>

record scope =
  extractMerchant :: "(string option \<Rightarrow> string option) option"
  isSalaryCredit :: "(string option \<Rightarrow> real \<Rightarrow> bool) option"
  identifyRecurringPayments :: "(sms_record list \<Rightarrow> recurring_payment list) option"
  categorizeMerchant :: "(string option \<Rightarrow> string) option"
  calculateUPIRegularity :: "(upi_record list \<Rightarrow> number) option"
  calculateRechargeConsistency :: "(mobile_record list \<Rightarrow> number) option"
  calculateFinancialStabilityScore :: "(sms_analysis \<Rightarrow> user_data \<Rightarrow> number) option"
  calculateSocialSignalsScore :: "(upi_analysis \<Rightarrow> mobile_analysis \<Rightarrow> number) option"
  getSMSDateRange :: "(sms_record list option \<Rightarrow> date_range) option"
  getUPIDateRange :: "(upi_record list option \<Rightarrow> date_range) option"
  getMobileDateRange :: "(mobile_record list option \<Rightarrow> date_range) option"

definition module_scope :: scope where
  "module_scope =
     \<lparr>extractMerchant = None, isSalaryCredit = None, identifyRecurringPayments = None,
      categorizeMerchant = None, calculateUPIRegularity = None,
      calculateRechargeConsistency = None, calculateFinancialStabilityScore = None,
      calculateSocialSignalsScore = None, getSMSDateRange = None, getUPIDateRange = None,
      getMobileDateRange = None\<rparr>"

definition reference :: "string \<Rightarrow> 'f option \<Rightarrow> js_error + 'f" where
  "reference name binding =
     (case binding of None \<Rightarrow> Inl (ReferenceError name) | Some f \<Rightarrow> Inr f)"

text \<open>
  \<open>parseAmount\<close>, \<open>determineTransactionType\<close> and \<open>extractBalance\<close> call a method of the
  message: on a message that is absent they raise TypeError.
\<close>

definition parseAmount :: "string option \<Rightarrow> js_error + real" where
  "parseAmount msg =
     (case msg of
        None \<Rightarrow> Inl (TypeError ''match'')
      | Some m \<Rightarrow> Inr (case search_amount m of Some g \<Rightarrow> parseFloat g | None \<Rightarrow> 0))"

datatype transaction_type = Credit | Debit | UnknownType

definition determineTransactionType :: "string option \<Rightarrow> js_error + transaction_type" where
  "determineTransactionType msg =
     (case msg of
        None \<Rightarrow> Inl (TypeError ''toLowerCase'')
      | Some m \<Rightarrow>
          Inr (if String_includes (toLowerCase m) ''credited''
                  \<or> String_includes (toLowerCase m) ''received'' then Credit
               else if String_includes (toLowerCase m) ''debited''
                  \<or> String_includes (toLowerCase m) ''paid'' then Debit
               else UnknownType))"

definition extractBalance :: "string option \<Rightarrow> js_error + real option" where
  "extractBalance msg =
     (case msg of
        None \<Rightarrow> Inl (TypeError ''match'')
      | Some m \<Rightarrow> Inr (case search_balance m of Some g \<Rightarrow> Some (parseFloat g) | None \<Rightarrow> None))"

text \<open>
  \<open>calculateBalanceStability\<close> and \<open>calculateRegularityScore\<close>. The mean divides, and it
  can be zero.
\<close>

definition calculateBalanceStability :: "real list \<Rightarrow> number" where
  "calculateBalanceStability balances =
     (if length balances < 2 then Num 50
      else
        let mean = foldl (\<lambda>a b. a + b) 0 balances / real (length balances);
            variance = foldl (\<lambda>sum balance. sum + (balance - mean) ^ 2) 0 balances
                         / real (length balances);
            coefficient = js_div (sqrt variance) mean
        in Math_max_min 0 100 (minus_from 100 (times_pos coefficient 100)))"

definition calculateRegularityScore :: "(string \<times> nat) list \<Rightarrow> number" where
  "calculateRegularityScore monthlyTransactions =
     (let months = map fst monthlyTransactions
      in if length months < 2 then Num 30
         else
           let counts = map (\<lambda>kv. real (snd kv)) monthlyTransactions;
               mean = foldl (\<lambda>a b. a + b) 0 counts / real (length counts);
               variance = foldl (\<lambda>sum count. sum + (count - mean) ^ 2) 0 counts
                            / real (length counts)
           in Math_max_min 0 100 (minus_from 100 (times_pos (js_div (sqrt variance) mean) 50)))"

text \<open>The default summaries.\<close>

definition getDefaultSMSAnalysis :: sms_analysis where
  "getDefaultSMSAnalysis =
     \<lparr>totalTransactions = 0, creditTransactions = 0, debitTransactions = 0,
      averageBalance = 0, balanceStability = Num 30, regularityScore = Num 30,
      merchantDiversity = 20, salaryCredits = [], recurringPayments = []\<rparr>"

definition getDefaultUPIAnalysis :: upi_analysis where
  "getDefaultUPIAnalysis =
     \<lparr>monthlyTransactionCount = 0, averageTransactionAmount = Num 0, totalVolume = Num 0,
      upi_paymentRegularity = Num 30, digitalFootprintScore = 20, merchantCategories = [],
      peakTransactionHours = [], weekdayVsWeekendRatio = Num 0\<rparr>"

definition getDefaultMobileAnalysis :: mobile_analysis where
  "getDefaultMobileAnalysis =
     \<lparr>rechargeFrequency = 0, averageRechargeAmount = Num 0, planType = Unknown,
      dataUsagePattern = Low, consistencyScore = Num 30\<rparr>"

section \<open>The three source analyses\<close>

text \<open>
  \<open>analyzeSMSTransactions\<close>. The state of the loop is the summary under construction
  and the four local variables; \<open>merchants\<close> is a \<open>Set\<close>, kept as a list without
  duplicates, and \<open>monthlyTransactions\<close> an object, kept as an association list in the
  order of insertion.
\<close>

record sms_loop =
  sms_summary :: sms_analysis
  totalBalance :: real
  balances :: "real list"
  merchants :: "string list"
  monthlyTransactions :: "(string \<times> nat) list"

fun count_month :: "(string \<times> nat) list \<Rightarrow> string \<Rightarrow> (string \<times> nat) list" where
  "count_month [] month = [(month, 0 + 1)]"
| "count_month ((k, n) # m) month =
     (if k = month then (k, n + 1) # m else (k, n) # count_month m month)"

definition sms_loop_body :: "scope \<Rightarrow> sms_loop \<Rightarrow> sms_record \<Rightarrow> js_error + sms_loop" where
  "sms_loop_body sc st sms =
     and_then (parseAmount (message sms)) (\<lambda>amount.
     and_then (determineTransactionType (message sms)) (\<lambda>type.
     and_then (reference ''extractMerchant'' (extractMerchant sc)) (\<lambda>extractMerchant'.
     let merchant = extractMerchant' (message sms);
         analysis = sms_summary st
     in
     and_then
       (case type of
          Credit \<Rightarrow>
            let analysis = analysis\<lparr>creditTransactions := creditTransactions analysis + 1\<rparr>
            in and_then (reference ''isSalaryCredit'' (isSalaryCredit sc)) (\<lambda>isSalaryCredit'.
                 Inr (if isSalaryCredit' (message sms) amount then
                        analysis\<lparr>salaryCredits := push (salaryCredits analysis)
                          \<lparr>salary_amount = amount, salary_date = date sms,
                           salary_source = merchant\<rparr>\<rparr>
                      else analysis))
        | Debit \<Rightarrow> Inr (analysis\<lparr>debitTransactions := debitTransactions analysis + 1\<rparr>)
        | UnknownType \<Rightarrow> Inr analysis) (\<lambda>analysis.
     and_then (extractBalance (message sms)) (\<lambda>balance.
     let st = (case balance of
                 None \<Rightarrow> st
               | Some b \<Rightarrow> st\<lparr>balances := push (balances st) b,
                               totalBalance := totalBalance st + b\<rparr>);
         st = (case merchant of
                 None \<Rightarrow> st
               | Some m \<Rightarrow> if m \<noteq> [] then st\<lparr>merchants := List.insert m (merchants st)\<rparr>
                           else st)
     in
     and_then (case date sms of
                 None \<Rightarrow> Inl (TypeError ''toISOString'')
               | Some d \<Rightarrow> Inr (iso_month d)) (\<lambda>month.
     Inr (st\<lparr>sms_summary := analysis,
             monthlyTransactions := count_month (monthlyTransactions st) month\<rparr>)))))))"

definition analyzeSMSTransactions :: "scope \<Rightarrow> sms_record list \<Rightarrow> sms_analysis" where
  "analyzeSMSTransactions sc smsData' =
     (case
        (if length smsData' = 0 then Inr getDefaultSMSAnalysis
         else
           let analysis =
                 \<lparr>totalTransactions = length smsData', creditTransactions = 0,
                  debitTransactions = 0, averageBalance = 0, balanceStability = Num 0,
                  regularityScore = Num 0, merchantDiversity = 0, salaryCredits = [],
                  recurringPayments = []\<rparr>;
               st = \<lparr>sms_summary = analysis, totalBalance = 0, balances = [],
                     merchants = [], monthlyTransactions = []\<rparr>
           in
           and_then (for_of (sms_loop_body sc) st smsData') (\<lambda>st.
           let analysis = sms_summary st;
               analysis = analysis\<lparr>averageBalance :=
                 (if length (balances st) > 0
                  then totalBalance st / real (length (balances st)) else 0)\<rparr>;
               analysis = analysis\<lparr>balanceStability :=
                 calculateBalanceStability (balances st)\<rparr>;
               analysis = analysis\<lparr>regularityScore :=
                 calculateRegularityScore (monthlyTransactions st)\<rparr>;
               analysis = analysis\<lparr>merchantDiversity :=
                 min (length (merchants st) * 10) 100\<rparr>
           in
           and_then (reference ''identifyRecurringPayments'' (identifyRecurringPayments sc))
             (\<lambda>identifyRecurringPayments'.
           Inr (analysis\<lparr>recurringPayments := identifyRecurringPayments' smsData'\<rparr>))))
      of
        Inr analysis \<Rightarrow> analysis
      | Inl error \<Rightarrow> getDefaultSMSAnalysis)"

text \<open>
  \<open>analyzeUPITransactions\<close>. \<open>categories\<close> is an object of \<open>{count, amount}\<close>, kept as
  an association list in the order of insertion; \<open>hourCounts\<close> has 24 entries, and
  \<open>getHours()\<close> is below 24.
\<close>

record upi_loop =
  upi_total :: number
  categories :: "(string \<times> nat \<times> number) list"
  hourCounts :: "nat list"
  weekdayCount :: nat
  weekendCount :: nat

fun count_category ::
  "(string \<times> nat \<times> number) list \<Rightarrow> string \<Rightarrow> number \<Rightarrow> (string \<times> nat \<times> number) list" where
  "count_category [] c a = [(c, 0 + 1, plus_number (Num 0) a)]"
| "count_category ((k, n, t) # m) c a =
     (if k = c then (k, n + 1, plus_number t a) # m else (k, n, t) # count_category m c a)"

definition upi_loop_body :: "scope \<Rightarrow> upi_loop \<Rightarrow> upi_record \<Rightarrow> js_error + upi_loop" where
  "upi_loop_body sc st transaction =
     (let st = st\<lparr>upi_total := plus_number (upi_total st) (upi_amount transaction)\<rparr>
      in
      and_then (reference ''categorizeMerchant'' (categorizeMerchant sc)) (\<lambda>categorizeMerchant'.
      let category' = categorizeMerchant' (upi_merchant transaction);
          st = st\<lparr>categories :=
                 count_category (categories st) category' (upi_amount transaction)\<rparr>
      in
      and_then (case upi_timestamp transaction of
                  None \<Rightarrow> Inl (TypeError ''getHours'')
                | Some d \<Rightarrow> Inr d) (\<lambda>timestamp.
      let hour = hours timestamp;
          st = (if hour < length (hourCounts st)
                then st\<lparr>hourCounts := (hourCounts st)[hour := hourCounts st ! hour + 1]\<rparr>
                else st);
          dayOfWeek = day timestamp
      in Inr (if dayOfWeek = 0 \<or> dayOfWeek = 6
              then st\<lparr>weekendCount := weekendCount st + 1\<rparr>
              else st\<lparr>weekdayCount := weekdayCount st + 1\<rparr>))))"

definition peak_hours :: "nat list \<Rightarrow> nat list" where
  "peak_hours counts =
     map fst (take 3 (sort_key (\<lambda>item. - int (snd item)) (zip [0..<length counts] counts)))"

definition analyzeUPITransactions :: "scope \<Rightarrow> upi_record list \<Rightarrow> upi_analysis" where
  "analyzeUPITransactions sc upiData' =
     (case
        (if length upiData' = 0 then Inr getDefaultUPIAnalysis
         else
           let analysis =
                 \<lparr>monthlyTransactionCount = 0, averageTransactionAmount = Num 0,
                  totalVolume = Num 0, upi_paymentRegularity = Num 0,
                  digitalFootprintScore = 0, merchantCategories = [],
                  peakTransactionHours = [], weekdayVsWeekendRatio = Num 0\<rparr>;
               st = \<lparr>upi_total = Num 0, categories = [], hourCounts = replicate 24 0,
                     weekdayCount = 0, weekendCount = 0\<rparr>
           in
           and_then (for_of (upi_loop_body sc) st upiData') (\<lambda>st.
           let analysis = analysis\<lparr>monthlyTransactionCount :=
                 nat (round (real (length upiData') / 3))\<rparr>;
               analysis = analysis\<lparr>averageTransactionAmount :=
                 divide_number (upi_total st) (real (length upiData'))\<rparr>;
               analysis = analysis\<lparr>totalVolume := upi_total st\<rparr>
           in
           and_then (reference ''calculateUPIRegularity'' (calculateUPIRegularity sc))
             (\<lambda>calculateUPIRegularity'.
           let analysis = analysis\<lparr>upi_paymentRegularity := calculateUPIRegularity' upiData'\<rparr>;
               analysis = analysis\<lparr>digitalFootprintScore := min (length upiData' * 2) 100\<rparr>;
               analysis = analysis\<lparr>merchantCategories :=
                 map (\<lambda>(c, n, t). \<lparr>category = c, transactionCount = n, totalAmount = t\<rparr>)
                   (categories st)\<rparr>;
               analysis = analysis\<lparr>peakTransactionHours := peak_hours (hourCounts st)\<rparr>
           in Inr (analysis\<lparr>weekdayVsWeekendRatio :=
                 Num (if weekdayCount st > 0
                      then real (weekendCount st) / real (weekdayCount st) else 0)\<rparr>))))
      of
        Inr analysis \<Rightarrow> analysis
      | Inl error \<Rightarrow> getDefaultUPIAnalysis)"

text \<open>\<open>analyzeMobileUsage\<close>.\<close>

definition analyzeMobileUsage :: "scope \<Rightarrow> mobile_record list \<Rightarrow> mobile_analysis" where
  "analyzeMobileUsage sc mobileData' =
     (case
        (if length mobileData' = 0 then Inr getDefaultMobileAnalysis
         else
           let analysis =
                 \<lparr>rechargeFrequency = 0, averageRechargeAmount = Num 0, planType = Unknown,
                  dataUsagePattern = Medium, consistencyScore = Num 0\<rparr>;
               recharges = filter (\<lambda>item. mobile_type item = ''recharge'') mobileData'
           in
           if length recharges > 0 then
             let total = foldl (\<lambda>sum r. plus_number sum (mobile_amount r)) (Num 0) recharges;
                 analysis = analysis\<lparr>averageRechargeAmount :=
                   divide_number total (real (length recharges))\<rparr>;
                 analysis = analysis\<lparr>rechargeFrequency := length recharges\<rparr>;
                 analysis =
                   (if greater_number (averageRechargeAmount analysis) 500
                    then analysis\<lparr>planType := Postpaid\<rparr>
                    else if less_number (averageRechargeAmount analysis) 100
                    then analysis\<lparr>planType := Prepaid\<rparr>
                    else analysis)
             in
             and_then
               (reference ''calculateRechargeConsistency'' (calculateRechargeConsistency sc))
               (\<lambda>calculateRechargeConsistency'.
             Inr (analysis\<lparr>consistencyScore := calculateRechargeConsistency' recharges\<rparr>))
           else Inr analysis)
      of
        Inr analysis \<Rightarrow> analysis
      | Inl error \<Rightarrow> getDefaultMobileAnalysis)"

section \<open>Components, signals and confidence\<close>

text \<open>
  \<open>calculateScoreComponents\<close>: the object literal is evaluated in the order it is
  written, so the three rounded means come before the two calls.
\<close>

definition calculateScoreComponents ::
  "scope \<Rightarrow> sms_analysis \<Rightarrow> upi_analysis \<Rightarrow> mobile_analysis \<Rightarrow> user_data
     \<Rightarrow> js_error + score_components" where
  "calculateScoreComponents sc smsAnalysis' upiAnalysis' mobileAnalysis' userData =
     (let transactionBehavior' =
            \<lparr>score = Math_round (divide_number
                (plus_number (regularityScore smsAnalysis')
                   (upi_paymentRegularity upiAnalysis')) 2),
             weight = Num 0.25,
             factors = [''SMS regularity'', ''UPI payment patterns'']\<rparr>;
          paymentRegularity' =
            \<lparr>score = Math_round (divide_number
                (plus_number (balanceStability smsAnalysis')
                   (consistencyScore mobileAnalysis')) 2),
             weight = Num 0.20,
             factors = [''Balance stability'', ''Recharge consistency'']\<rparr>;
          digitalEngagement' =
            \<lparr>score = Math_round (divide_number
                (plus_number (Num (real (digitalFootprintScore upiAnalysis')))
                   (Num (real (merchantDiversity smsAnalysis')))) 2),
             weight = Num 0.20,
             factors = [''UPI usage'', ''Merchant diversity'']\<rparr>
      in
      and_then (reference ''calculateFinancialStabilityScore''
                  (calculateFinancialStabilityScore sc))
        (\<lambda>calculateFinancialStabilityScore'.
      let financialStability' =
            \<lparr>score = calculateFinancialStabilityScore' smsAnalysis' userData,
             weight = Num 0.25,
             factors = [''Average balance'', ''Income regularity'']\<rparr>
      in
      and_then (reference ''calculateSocialSignalsScore'' (calculateSocialSignalsScore sc))
        (\<lambda>calculateSocialSignalsScore'.
      Inr \<lparr>transactionBehavior = transactionBehavior',
           paymentRegularity = paymentRegularity',
           digitalEngagement = digitalEngagement',
           financialStability = financialStability',
           socialSignals =
             \<lparr>score = calculateSocialSignalsScore' upiAnalysis' mobileAnalysis',
              weight = Num 0.10,
              factors = [''Transaction timing'', ''Usage patterns'']\<rparr>\<rparr>)))"

definition identifyRedFlags ::
  "sms_analysis \<Rightarrow> upi_analysis \<Rightarrow> mobile_analysis \<Rightarrow> red_flag list" where
  "identifyRedFlags smsAnalysis' upiAnalysis' mobileAnalysis' =
     (let flags = [];
          flags =
            (if less_number (balanceStability smsAnalysis') 30 then
               push flags
                 \<lparr>flag_type = ''low_balance_stability'', severity = High,
                  flag_description = ''Highly volatile account balance'', flag_impact = - 20\<rparr>
             else flags)
      in if digitalFootprintScore upiAnalysis' < 20 then
           push flags
             \<lparr>flag_type = ''low_digital_usage'', severity = Medium,
              flag_description = ''Limited digital payment activity'', flag_impact = - 10\<rparr>
         else flags)"

definition identifyPositiveIndicators ::
  "sms_analysis \<Rightarrow> upi_analysis \<Rightarrow> mobile_analysis \<Rightarrow> positive_indicator list" where
  "identifyPositiveIndicators smsAnalysis' upiAnalysis' mobileAnalysis' =
     (let indicators = [];
          indicators =
            (if length (salaryCredits smsAnalysis') > 0 then
               push indicators
                 \<lparr>indicator_type = ''regular_salary'', strength = High,
                  indicator_description = ''Regular salary credits detected'',
                  indicator_impact = 25\<rparr>
             else indicators)
      in if digitalFootprintScore upiAnalysis' > 70 then
           push indicators
             \<lparr>indicator_type = ''high_digital_engagement'', strength = Medium,
              indicator_description = ''Strong digital payment adoption'',
              indicator_impact = 15\<rparr>
         else indicators)"

definition calculateConfidenceLevel ::
  "sms_analysis \<Rightarrow> upi_analysis \<Rightarrow> mobile_analysis \<Rightarrow> real" where
  "calculateConfidenceLevel smsAnalysis' upiAnalysis' mobileAnalysis' =
     (let confidence = 0.3;
          confidence = (if totalTransactions smsAnalysis' > 50
                        then confidence + 0.2 else confidence);
          confidence = (if monthlyTransactionCount upiAnalysis' > 10
                        then confidence + 0.2 else confidence);
          confidence = (if rechargeFrequency mobileAnalysis' > 5
                        then confidence + 0.1 else confidence)
      in min confidence 1.0)"

section \<open>The entry point\<close>

text \<open>
  The collaborators of the entry point are parameters: the collection
  (\<open>CreditAnalysis.findOne\<close> and \<open>analysis.save\<close>, each of which may reject) and the clock
  (\<open>new Date()\<close>). \<open>new CreditAnalysis({ userId })\<close> is the document of the schema's
  defaults; the numbers it leaves undefined are NaN. An assignment to a field of the
  document is a plain store of the value assigned: what the casts of the schema make of
  it is not modelled, and no theorem below reads a field back that the entry point stored.
\<close>

record database =
  findOne :: "string \<Rightarrow> js_error + credit_analysis option"
  save :: "credit_analysis \<Rightarrow> js_error + unit"

definition new_CreditAnalysis :: "string \<Rightarrow> nat \<Rightarrow> credit_analysis" where
  "new_CreditAnalysis uid now =
     (let unset = \<lparr>score = NaN, weight = NaN, factors = []\<rparr>
      in \<lparr>userId = uid,
          smsAnalysis =
            \<lparr>totalTransactions = 0, creditTransactions = 0, debitTransactions = 0,
             averageBalance = 0, balanceStability = Num 0, regularityScore = Num 0,
             merchantDiversity = 0, salaryCredits = [], recurringPayments = []\<rparr>,
          upiAnalysis =
            \<lparr>monthlyTransactionCount = 0, averageTransactionAmount = Num 0,
             totalVolume = Num 0, upi_paymentRegularity = Num 0, digitalFootprintScore = 0,
             merchantCategories = [], peakTransactionHours = [], weekdayVsWeekendRatio = NaN\<rparr>,
          mobileUsage =
            \<lparr>rechargeFrequency = 0, averageRechargeAmount = Num 0, planType = Unknown,
             dataUsagePattern = Medium, consistencyScore = Num 0\<rparr>,
          creditScoreComponents =
            \<lparr>transactionBehavior = unset, paymentRegularity = unset,
             digitalEngagement = unset, financialStability = unset, socialSignals = unset\<rparr>,
          alternativeCreditScore = None, confidenceLevel = None, riskCategory = None,
          analysisDate = now, dataSourcesUsed = [], redFlags = [], positiveIndicators = [],
          loanRecommendation = None\<rparr>)"

definition or_empty :: "'a list option \<Rightarrow> 'a list" where
  "or_empty xs = (case xs of None \<Rightarrow> [] | Some l \<Rightarrow> l)"

definition length_or_0 :: "'a list option \<Rightarrow> nat" where
  "length_or_0 xs = (case xs of None \<Rightarrow> 0 | Some l \<Rightarrow> length l)"

definition calculateAlternativeCreditScore ::
  "scope \<Rightarrow> database \<Rightarrow> nat \<Rightarrow> string \<Rightarrow> user_data \<Rightarrow> js_error + credit_analysis" where
  "calculateAlternativeCreditScore sc db now uid userData =
     (case
        and_then (findOne db uid) (\<lambda>found.
        let analysis = (case found of None \<Rightarrow> new_CreditAnalysis uid now | Some a \<Rightarrow> a);
            smsAnalysis' = analyzeSMSTransactions sc (or_empty (smsData userData));
            upiAnalysis' = analyzeUPITransactions sc (or_empty (upiData userData));
            mobileAnalysis' = analyzeMobileUsage sc (or_empty (mobileData userData));
            analysis = analysis\<lparr>smsAnalysis := smsAnalysis'\<rparr>;
            analysis = analysis\<lparr>upiAnalysis := upiAnalysis'\<rparr>;
            analysis = analysis\<lparr>mobileUsage := mobileAnalysis'\<rparr>
        in
        and_then (calculateScoreComponents sc smsAnalysis' upiAnalysis' mobileAnalysis' userData)
          (\<lambda>components.
        let analysis = analysis\<lparr>creditScoreComponents := components\<rparr>;
            (finalScore, analysis) = calculateCreditScore analysis;
            (risk, analysis) = determineRiskCategory analysis;
            (recommendation, analysis) = generateLoanRecommendation analysis;
            analysis = analysis\<lparr>redFlags :=
              identifyRedFlags smsAnalysis' upiAnalysis' mobileAnalysis'\<rparr>;
            analysis = analysis\<lparr>positiveIndicators :=
              identifyPositiveIndicators smsAnalysis' upiAnalysis' mobileAnalysis'\<rparr>;
            analysis = analysis\<lparr>confidenceLevel :=
              Some (calculateConfidenceLevel smsAnalysis' upiAnalysis' mobileAnalysis')\<rparr>;
            analysis = analysis\<lparr>analysisDate := now\<rparr>
        in
        and_then (reference ''getSMSDateRange'' (getSMSDateRange sc)) (\<lambda>getSMSDateRange'.
        and_then (reference ''getUPIDateRange'' (getUPIDateRange sc)) (\<lambda>getUPIDateRange'.
        and_then (reference ''getMobileDateRange'' (getMobileDateRange sc))
          (\<lambda>getMobileDateRange'.
        let analysis = analysis\<lparr>dataSourcesUsed :=
              [\<lparr>source = ''SMS'', dataPoints = length_or_0 (smsData userData),
                dateRange = getSMSDateRange' (smsData userData)\<rparr>,
               \<lparr>source = ''UPI'', dataPoints = length_or_0 (upiData userData),
                dateRange = getUPIDateRange' (upiData userData)\<rparr>,
               \<lparr>source = ''Mobile'', dataPoints = length_or_0 (mobileData userData),
                dateRange = getMobileDateRange' (mobileData userData)\<rparr>]\<rparr>
        in
        and_then (save db analysis) (\<lambda>saved. Inr analysis))))))
      of
        Inr analysis \<Rightarrow> Inr analysis
      | Inl error \<Rightarrow> Inl (Error ''Failed to calculate credit score''))"

section \<open>The specification's formulas\<close>

text \<open>
  The aggregate as the specification words it: the rounded weighted mean over all the
  components, clamped to the scale, and the minimum of the scale when the weights sum
  to zero. It is compared with \<open>calculateCreditScore\<close> below.
\<close>

definition number_value :: "number \<Rightarrow> real" where
  "number_value x = (case x of Num r \<Rightarrow> r | NaN \<Rightarrow> 0)"

definition finalScore_spec :: "score_components \<Rightarrow> int" where
  "finalScore_spec cs =
     (let scores = map (\<lambda>c. number_value (score c)) (component_list cs);
          weights = map (\<lambda>c. number_value (weight c)) (component_list cs)
      in if sum_list weights = 0 then 300
         else max 300 (min 900
                (round (300 + 6 * (sum_list (map2 (\<lambda>s w. s * w) scores weights)
                                   / sum_list weights)))))"

text \<open>
  The balance stability as the specification words it, for at least two readings:
  \<open>100 \<cdot> (1 - min(1, stdDev / mean))\<close>, with the deviation of the population, and the
  neutral 50 below two readings.
\<close>

definition mean :: "real list \<Rightarrow> real" where
  "mean xs = sum_list xs / real (length xs)"

definition stdDev :: "real list \<Rightarrow> real" where
  "stdDev xs = sqrt (sum_list (map (\<lambda>x. (x - mean xs) ^ 2) xs) / real (length xs))"

definition balanceStability_spec :: "real list \<Rightarrow> real" where
  "balanceStability_spec balances' =
     (if length balances' < 2 then 50
      else 100 * (1 - min 1 (stdDev balances' / mean balances')))"

text \<open>The fixed weights, with five given scores.\<close>

definition weighted_components :: "real \<Rightarrow> real \<Rightarrow> real \<Rightarrow> real \<Rightarrow> real \<Rightarrow> score_components" where
  "weighted_components s1 s2 s3 s4 s5 =
     \<lparr>transactionBehavior = \<lparr>score = Num s1, weight = Num 0.25, factors = []\<rparr>,
      paymentRegularity = \<lparr>score = Num s2, weight = Num 0.20, factors = []\<rparr>,
      digitalEngagement = \<lparr>score = Num s3, weight = Num 0.20, factors = []\<rparr>,
      financialStability = \<lparr>score = Num s4, weight = Num 0.25, factors = []\<rparr>,
      socialSignals = \<lparr>score = Num s5, weight = Num 0.10, factors = []\<rparr>\<rparr>"

section \<open>Sample inputs\<close>

text \<open>Concrete values at which the theorems below are instantiated.\<close>

definition sample_date :: js_date where
  "sample_date = \<lparr>iso_month = ''2024-01'', hours = 10, day = 1\<rparr>"

definition sample_sms :: sms_record where
  "sample_sms =
     \<lparr>message = Some ''Rs. 5,000 credited to your a/c. Avl balance Rs. 12,000.50'',
      date = Some sample_date\<rparr>"

definition sample_upi :: upi_record where
  "sample_upi =
     \<lparr>upi_amount = Num 250, upi_merchant = Some ''grocery store'',
      upi_timestamp = Some sample_date\<rparr>"

definition empty_input :: user_data where
  "empty_input =
     \<lparr>smsData = Some [], upiData = Some [], mobileData = Some [],
      monthlyIncome = Num 0, occupation = ''other''\<rparr>"

definition empty_database :: database where
  "empty_database = \<lparr>findOne = (\<lambda>uid. Inr None), save = (\<lambda>a. Inr ())\<rparr>"

definition fresh :: credit_analysis where
  "fresh = new_CreditAnalysis ''user'' 0"

definition volatile_balance_flag :: red_flag where
  "volatile_balance_flag =
     \<lparr>flag_type = ''low_balance_stability'', severity = High,
      flag_description = ''Highly volatile account balance'', flag_impact = - 20\<rparr>"

section \<open>Risk classification\<close>

text \<open>
  C5. For every final score, \<open>determineRiskCategory\<close> returns low if and only if the score
  is at least 750, medium if and only if it is between 600 and 749 inclusive, and high if
  and only if it is below 600. The function is total, and the three cases exclude one
  another.
\<close>

theorem determineRiskCategory_thresholds:
  "(fst (determineRiskCategory (this\<lparr>alternativeCreditScore := Some s\<rparr>)) = Low) = (s \<ge> 750)
   \<and> (fst (determineRiskCategory (this\<lparr>alternativeCreditScore := Some s\<rparr>)) = Medium)
       = (600 \<le> s \<and> s \<le> 749)
   \<and> (fst (determineRiskCategory (this\<lparr>alternativeCreditScore := Some s\<rparr>)) = High) = (s < 600)
   \<and> riskCategory (snd (determineRiskCategory (this\<lparr>alternativeCreditScore := Some s\<rparr>)))
       = Some (fst (determineRiskCategory (this\<lparr>alternativeCreditScore := Some s\<rparr>)))"
  by (auto simp: determineRiskCategory_def at_least_def Let_def)

section \<open>Loan recommendation\<close>

text \<open>
  C6. For every final score, \<open>generateLoanRecommendation\<close> produces the decision table
  keyed by the score, each bound inclusive at its lower edge: below 600 not eligible,
  with the two conditions that the score is too low and that credit history should be
  built; from 600 eligible with 25000, 15000, 18.0 and 12; from 650 with 50000, 25000,
  15.0 and 18; from 750 with 100000, 50000, 12.0 and 24.
\<close>

theorem generateLoanRecommendation_table:
  "(let r = fst (generateLoanRecommendation (this\<lparr>alternativeCreditScore := Some s\<rparr>))
    in (eligible r, maxLoanAmount r, recommendedAmount r, suggestedInterestRate r, maxTenure r)
         = (if s < 600 then (False, 0, 0, 24, 6)
            else if s < 650 then (True, 25000, 15000, 18, 12)
            else if s < 750 then (True, 50000, 25000, 15, 18)
            else (True, 100000, 50000, 12, 24))
       \<and> (if s < 600
          then conditions r = [''Credit score too low for loan approval'',
                               ''Consider building credit history'']
          else set (conditions r) \<subseteq> {''Additional verification required'',
                                      ''Regular monitoring of repayment''}))"
  by (auto simp: generateLoanRecommendation_def at_least_def Let_def
        initial_recommendation_def push_def)

text \<open>
  C7, as the claim states it, fails: below 600 the two conditions of the refusal are the
  only ones, whatever the red flags. At the score 500, with one red flag, the condition
  of additional verification is not appended.
\<close>

theorem verification_condition_below_600_counterexample:
  "redFlags (fresh\<lparr>alternativeCreditScore := Some 500, riskCategory := Some High,
              redFlags := [volatile_balance_flag]\<rparr>) \<noteq> []
   \<and> ''Additional verification required''
       \<notin> set (conditions (fst (generateLoanRecommendation
           (fresh\<lparr>alternativeCreditScore := Some 500, riskCategory := Some High,
              redFlags := [volatile_balance_flag]\<rparr>))))"
  by (simp add: generateLoanRecommendation_def at_least_def Let_def
        initial_recommendation_def push_def)

text \<open>
  C7, amended. For every analysis whose final score is at least 600,
  \<open>generateLoanRecommendation\<close> appends the condition of additional verification exactly
  when the document has at least one red flag, and the condition of regular monitoring
  exactly when its risk category is medium.
\<close>

theorem conditions_of_eligible:
  "600 \<le> s \<Longrightarrow>
   (let r = fst (generateLoanRecommendation (this\<lparr>alternativeCreditScore := Some s\<rparr>))
    in (''Additional verification required'' \<in> set (conditions r)) = (redFlags this \<noteq> [])
     \<and> (''Regular monitoring of repayment'' \<in> set (conditions r))
         = (riskCategory this = Some Medium))"
  by (auto simp: generateLoanRecommendation_def at_least_def Let_def
        initial_recommendation_def push_def)

theorem conditions_of_eligible_witness:
  "conditions (fst (generateLoanRecommendation
      (fresh\<lparr>riskCategory := Some Medium, redFlags := [volatile_balance_flag],
         alternativeCreditScore := Some 700\<rparr>)))
   = [''Additional verification required'', ''Regular monitoring of repayment'']"
  using conditions_of_eligible
    [of 700 "fresh\<lparr>riskCategory := Some Medium, redFlags := [volatile_balance_flag]\<rparr>"]
  by (simp add: generateLoanRecommendation_def at_least_def Let_def
        initial_recommendation_def push_def)

section \<open>Confidence\<close>

text \<open>
  C8. For every triple of summaries, \<open>calculateConfidenceLevel\<close> is the base 0.3, plus
  0.2 if the SMS summary counts more than 50 transactions, plus 0.2 if the UPI summary's
  monthly count exceeds 10, plus 0.1 if the recharge frequency exceeds 5, capped at 1.
\<close>

theorem calculateConfidenceLevel_sum:
  "calculateConfidenceLevel s u m =
     min 1 (0.3 + (if totalTransactions s > 50 then 0.2 else 0)
                + (if monthlyTransactionCount u > 10 then 0.2 else 0)
                + (if rechargeFrequency m > 5 then 0.1 else 0))"
  by (simp add: calculateConfidenceLevel_def Let_def)

section \<open>The unbound helpers\<close>

lemma sms_loop_body_raises: "\<exists>e. sms_loop_body module_scope st sms = Inl e"
  by (cases "message sms")
     (simp_all add: sms_loop_body_def parseAmount_def determineTransactionType_def
        reference_def module_scope_def and_then_def)

lemma upi_loop_body_raises: "\<exists>e. upi_loop_body module_scope st t = Inl e"
  by (simp add: upi_loop_body_def reference_def module_scope_def and_then_def Let_def)

lemma for_of_raises:
  assumes "\<And>st x. \<exists>e. body st x = Inl e" and "xs \<noteq> []"
  shows "\<exists>e. for_of body st xs = Inl e"
proof (cases xs)
  case Nil
  with assms(2) show ?thesis by simp
next
  case (Cons x rest)
  from assms(1) obtain e where "body st x = Inl e" by blast
  with Cons show ?thesis by simp
qed

lemma analyzeSMSTransactions_nonempty:
  assumes ne: "smsData' \<noteq> []"
  shows "analyzeSMSTransactions module_scope smsData' = getDefaultSMSAnalysis"
proof -
  have "\<And>st. \<exists>e. for_of (sms_loop_body module_scope) st smsData' = Inl e"
    by (rule for_of_raises) (rule sms_loop_body_raises, rule ne)
  then obtain e where
    "for_of (sms_loop_body module_scope)
       \<lparr>sms_summary =
          \<lparr>totalTransactions = length smsData', creditTransactions = 0,
           debitTransactions = 0, averageBalance = 0, balanceStability = Num 0,
           regularityScore = Num 0, merchantDiversity = 0, salaryCredits = [],
           recurringPayments = []\<rparr>,
        totalBalance = 0, balances = [], merchants = [], monthlyTransactions = []\<rparr>
       smsData' = Inl e"
    by blast
  with ne show ?thesis
    by (simp add: analyzeSMSTransactions_def Let_def and_then_def)
qed

lemma analyzeUPITransactions_nonempty:
  assumes ne: "upiData' \<noteq> []"
  shows "analyzeUPITransactions module_scope upiData' = getDefaultUPIAnalysis"
proof -
  have "\<And>st. \<exists>e. for_of (upi_loop_body module_scope) st upiData' = Inl e"
    by (rule for_of_raises) (rule upi_loop_body_raises, rule ne)
  then obtain e where
    "for_of (upi_loop_body module_scope)
       \<lparr>upi_total = Num 0, categories = [], hourCounts = replicate 24 0,
        weekdayCount = 0, weekendCount = 0\<rparr>
       upiData' = Inl e"
    by blast
  with ne show ?thesis
    by (simp add: analyzeUPITransactions_def Let_def and_then_def)
qed

lemma analyzeSMSTransactions_empty: "analyzeSMSTransactions sc [] = getDefaultSMSAnalysis"
  by (simp add: analyzeSMSTransactions_def)

lemma analyzeUPITransactions_empty: "analyzeUPITransactions sc [] = getDefaultUPIAnalysis"
  by (simp add: analyzeUPITransactions_def)

lemma analyzeMobileUsage_empty: "analyzeMobileUsage sc [] = getDefaultMobileAnalysis"
  by (simp add: analyzeMobileUsage_def)

text \<open>
  C3. For every list of SMS records that is not empty, \<open>analyzeSMSTransactions\<close> returns
  the default summary it returns for the empty list (no transactions, balance stability
  30, regularity 30, merchant diversity 20, no salary credits and no recurring payments),
  and for every list of UPI records that is not empty \<open>analyzeUPITransactions\<close> returns
  its default summary: the first iteration of the loop raises, on an unbound helper at
  the latest, and the handler returns the default.
\<close>

theorem analyses_of_nonempty_lists_are_defaults:
  "(smsData' \<noteq> [] \<longrightarrow>
      (\<forall>st. \<exists>e. for_of (sms_loop_body module_scope) st smsData' = Inl e)
      \<and> analyzeSMSTransactions module_scope smsData' = analyzeSMSTransactions module_scope []
      \<and> analyzeSMSTransactions module_scope smsData' =
          \<lparr>totalTransactions = 0, creditTransactions = 0, debitTransactions = 0,
           averageBalance = 0, balanceStability = Num 30, regularityScore = Num 30,
           merchantDiversity = 20, salaryCredits = [], recurringPayments = []\<rparr>)
   \<and> (upiData' \<noteq> [] \<longrightarrow>
      (\<forall>st. \<exists>e. for_of (upi_loop_body module_scope) st upiData' = Inl e)
      \<and> analyzeUPITransactions module_scope upiData' = analyzeUPITransactions module_scope []
      \<and> analyzeUPITransactions module_scope upiData' = getDefaultUPIAnalysis)"
proof (intro conjI impI allI)
  fix st
  assume ne: "smsData' \<noteq> []"
  show "\<exists>e. for_of (sms_loop_body module_scope) st smsData' = Inl e"
    by (rule for_of_raises) (rule sms_loop_body_raises, rule ne)
next
  assume ne: "smsData' \<noteq> []"
  show "analyzeSMSTransactions module_scope smsData' = analyzeSMSTransactions module_scope []"
    by (simp add: analyzeSMSTransactions_nonempty [OF ne] analyzeSMSTransactions_empty)
  show "analyzeSMSTransactions module_scope smsData' =
          \<lparr>totalTransactions = 0, creditTransactions = 0, debitTransactions = 0,
           averageBalance = 0, balanceStability = Num 30, regularityScore = Num 30,
           merchantDiversity = 20, salaryCredits = [], recurringPayments = []\<rparr>"
    by (simp add: analyzeSMSTransactions_nonempty [OF ne] getDefaultSMSAnalysis_def)
next
  fix st
  assume ne: "upiData' \<noteq> []"
  show "\<exists>e. for_of (upi_loop_body module_scope) st upiData' = Inl e"
    by (rule for_of_raises) (rule upi_loop_body_raises, rule ne)
next
  assume ne: "upiData' \<noteq> []"
  show "analyzeUPITransactions module_scope upiData' = analyzeUPITransactions module_scope []"
    by (simp add: analyzeUPITransactions_nonempty [OF ne] analyzeUPITransactions_empty)
  show "analyzeUPITransactions module_scope upiData' = getDefaultUPIAnalysis"
    by (rule analyzeUPITransactions_nonempty [OF ne])
qed

theorem analyses_of_nonempty_lists_are_defaults_witness:
  "[sample_sms, sample_sms] \<noteq> []
   \<and> analyzeSMSTransactions module_scope [sample_sms, sample_sms] =
       \<lparr>totalTransactions = 0, creditTransactions = 0, debitTransactions = 0,
        averageBalance = 0, balanceStability = Num 30, regularityScore = Num 30,
        merchantDiversity = 20, salaryCredits = [], recurringPayments = []\<rparr>
   \<and> [sample_upi] \<noteq> []
   \<and> analyzeUPITransactions module_scope [sample_upi] = getDefaultUPIAnalysis"
proof -
  have sms: "[sample_sms, sample_sms] \<noteq> []" and upi: "[sample_upi] \<noteq> []"
    by simp_all
  from analyses_of_nonempty_lists_are_defaults [of "[sample_sms, sample_sms]" "[sample_upi]"]
    sms upi
  show ?thesis by blast
qed

section \<open>The entry point\<close>

lemma calculateScoreComponents_raises:
  "calculateScoreComponents module_scope s u m d =
     Inl (ReferenceError ''calculateFinancialStabilityScore'')"
  by (simp add: calculateScoreComponents_def module_scope_def reference_def and_then_def
        Let_def)

lemma calculateAlternativeCreditScore_raises:
  "calculateAlternativeCreditScore module_scope db now uid userData =
     Inl (Error ''Failed to calculate credit score'')"
  by (simp add: calculateAlternativeCreditScore_def calculateScoreComponents_raises
        and_then_def Let_def split: sum.splits)

text \<open>
  C1 asks that the entry point return a result for every payload of the right types. It
  does not: \<open>calculateScoreComponents\<close> evaluates an unbound identifier, and the handler
  of the entry point raises the error of the engine, for every store, user and payload,
  the empty payload among them.
\<close>

theorem entry_point_raises_on_every_payload:
  "calculateAlternativeCreditScore module_scope db now uid userData =
     Inl (Error ''Failed to calculate credit score'')
   \<and> calculateAlternativeCreditScore module_scope empty_database 0 ''user'' empty_input =
     Inl (Error ''Failed to calculate credit score'')"
  by (simp add: calculateAlternativeCreditScore_raises)

section \<open>Balance stability\<close>

text \<open>
  For at least two readings whose mean is positive, the method returns the value of the
  specification's formula, which lies in [0,100]; below two readings it returns 50.
\<close>

lemma foldl_plus_sum_list:
  fixes f :: "'a \<Rightarrow> real"
  shows "foldl (\<lambda>s b. s + f b) a xs = a + sum_list (map f xs)"
  by (induction xs arbitrary: a) simp_all

lemma clamp_of_coefficient:
  fixes c :: real
  assumes "0 \<le> c"
  shows "max 0 (min 100 (100 - c * 100)) = 100 * (1 - min 1 c)"
    and "0 \<le> 100 * (1 - min 1 c)" and "100 * (1 - min 1 c) \<le> 100"
  using assms by (auto simp: min_def max_def)

lemma calculateBalanceStability_positive_mean:
  assumes "2 \<le> length bs" and "0 < mean bs"
  shows "calculateBalanceStability bs = Num (balanceStability_spec bs)"
    and "0 \<le> balanceStability_spec bs" and "balanceStability_spec bs \<le> 100"
proof -
  have m: "foldl (\<lambda>a b. a + b) 0 bs / real (length bs) = mean bs"
    using foldl_plus_sum_list [of "\<lambda>b. b" 0 bs] by (simp add: mean_def)
  have v: "sqrt (foldl (\<lambda>sum balance. sum + (balance - mean bs) ^ 2) 0 bs / real (length bs))
      = stdDev bs"
    using foldl_plus_sum_list [of "\<lambda>b. (b - mean bs) ^ 2" 0 bs] by (simp add: stdDev_def)
  have "0 \<le> stdDev bs"
    unfolding stdDev_def
    by (intro real_sqrt_ge_zero divide_nonneg_nonneg sum_list_nonneg) auto
  with assms(2) have c: "0 \<le> stdDev bs / mean bs"
    by simp
  have "calculateBalanceStability bs =
      Num (max 0 (min 100 (100 - stdDev bs / mean bs * 100)))"
    using assms by (simp add: calculateBalanceStability_def m v js_div_def Let_def)
  also have "max 0 (min 100 (100 - stdDev bs / mean bs * 100)) = balanceStability_spec bs"
    using assms(1) clamp_of_coefficient(1) [OF c] by (simp add: balanceStability_spec_def)
  finally show "calculateBalanceStability bs = Num (balanceStability_spec bs)" .
  show "0 \<le> balanceStability_spec bs" "balanceStability_spec bs \<le> 100"
    using assms(1) clamp_of_coefficient(2,3) [OF c]
    by (simp_all add: balanceStability_spec_def)
qed

lemma calculateBalanceStability_few_readings:
  "length bs < 2 \<Longrightarrow> calculateBalanceStability bs = Num 50"
  by (simp add: calculateBalanceStability_def)

lemma calculateBalanceStability_sample:
  "calculateBalanceStability [1, 3] = Num 50 \<and> balanceStability_spec [1, 3] = 50"
  using calculateBalanceStability_positive_mean(1) [of "[1, 3]"]
  by (simp add: mean_def stdDev_def balanceStability_spec_def)

text \<open>
  C10 asks that the result be the formula's value and lie between 0 and 100 for every
  list of readings. Two readings of a balance of zero have the mean zero and the
  deviation zero: the coefficient is \<open>0 / 0\<close>, and the clamp returns NaN.
\<close>

theorem calculateBalanceStability_of_zero_balances:
  "calculateBalanceStability [0, 0] = NaN"
  by (simp add: calculateBalanceStability_def js_div_def Let_def)

section \<open>The aggregate\<close>

lemma sums_of_weighted_components:
  "foldl accumulate (0, 0) (component_list (weighted_components s1 s2 s3 s4 s5)) =
     (s1 * 0.25 + s2 * 0.20 + s3 * 0.20 + s4 * 0.25 + s5 * 0.10,
      (if s1 \<noteq> 0 then 0.25 else 0) + (if s2 \<noteq> 0 then 0.20 else 0)
        + (if s3 \<noteq> 0 then 0.20 else 0) + (if s4 \<noteq> 0 then 0.25 else 0)
        + (if s5 \<noteq> 0 then 0.10 else 0))"
  by (simp add: component_list_def weighted_components_def)

lemma scaled_mean_in_range:
  fixes weighted total :: real
  assumes "0 \<le> weighted" "weighted \<le> 100 * total" "0 < total"
  shows "300 \<le> round (300 + 6 * (weighted / total))"
    and "round (300 + 6 * (weighted / total)) \<le> 900"
proof -
  have q: "0 \<le> weighted / total" "weighted / total \<le> 100"
    using assms by (simp_all add: pos_divide_le_eq)
  have "round (300::real) \<le> round (300 + 6 * (weighted / total))"
    by (rule round_mono) (use q in simp)
  then show "300 \<le> round (300 + 6 * (weighted / total))" by simp
  have "round (300 + 6 * (weighted / total)) \<le> round (900::real)"
    by (rule round_mono) (use q in simp)
  then show "round (300 + 6 * (weighted / total)) \<le> 900" by simp
qed

lemma calculateCreditScore_without_weights:
  assumes "\<not> truthy (weight (transactionBehavior cs))"
    "\<not> truthy (weight (paymentRegularity cs))"
    "\<not> truthy (weight (digitalEngagement cs))"
    "\<not> truthy (weight (financialStability cs))"
    "\<not> truthy (weight (socialSignals cs))"
  shows "fst (calculateCreditScore (this\<lparr>creditScoreComponents := cs\<rparr>)) = 300"
  using assms by (simp add: calculateCreditScore_def component_list_def)

lemma finalScore_spec_of_nonzero_scores:
  assumes "s1 \<noteq> 0" "s2 \<noteq> 0" "s3 \<noteq> 0" "s4 \<noteq> 0" "s5 \<noteq> 0"
    and "300 \<le> round (300 + 6 * ((s1 * 0.25 + s2 * 0.20 + s3 * 0.20 + s4 * 0.25 + s5 * 0.10) / 1))"
    and "round (300 + 6 * ((s1 * 0.25 + s2 * 0.20 + s3 * 0.20 + s4 * 0.25 + s5 * 0.10) / 1)) \<le> 900"
  shows "finalScore_spec (weighted_components s1 s2 s3 s4 s5) =
     round (300 + 6 * ((s1 * 0.25 + s2 * 0.20 + s3 * 0.20 + s4 * 0.25 + s5 * 0.10) / 1))"
  using assms
  by (simp add: finalScore_spec_def component_list_def weighted_components_def
        number_value_def algebra_simps)

text \<open>
  When no score is 0 the method returns the value of the specification's formula, which
  lies in [300, 900] without any clamp.
\<close>

lemma calculateCreditScore_nonzero_scores:
  assumes "0 < s1" "s1 \<le> 100" "0 < s2" "s2 \<le> 100" "0 < s3" "s3 \<le> 100"
    and "0 < s4" "s4 \<le> 100" "0 < s5" "s5 \<le> 100"
  shows "fst (calculateCreditScore
            (this\<lparr>creditScoreComponents := weighted_components s1 s2 s3 s4 s5\<rparr>))
         = finalScore_spec (weighted_components s1 s2 s3 s4 s5)"
    and "300 \<le> fst (calculateCreditScore
            (this\<lparr>creditScoreComponents := weighted_components s1 s2 s3 s4 s5\<rparr>))"
    and "fst (calculateCreditScore
            (this\<lparr>creditScoreComponents := weighted_components s1 s2 s3 s4 s5\<rparr>)) \<le> 900"
proof -
  define weighted where
    "weighted = s1 * 0.25 + s2 * 0.20 + s3 * 0.20 + s4 * 0.25 + s5 * 0.10"
  define r where
    "r = fst (calculateCreditScore
           (this\<lparr>creditScoreComponents := weighted_components s1 s2 s3 s4 s5\<rparr>))"
  have sums: "foldl accumulate (0, 0) (component_list (weighted_components s1 s2 s3 s4 s5))
      = (weighted, 1)"
    unfolding weighted_def using assms by (simp add: sums_of_weighted_components)
  have r: "r = round (300 + 6 * (weighted / 1))"
    by (simp add: r_def calculateCreditScore_def sums Let_def mult.commute)
  have nonneg: "0 \<le> weighted" and le: "weighted \<le> 100 * 1"
    unfolding weighted_def using assms by simp_all
  from scaled_mean_in_range [OF nonneg le] r
  have range: "300 \<le> r" "r \<le> 900"
    by simp_all
  from assms have "s1 \<noteq> 0" "s2 \<noteq> 0" "s3 \<noteq> 0" "s4 \<noteq> 0" "s5 \<noteq> 0"
    by simp_all
  from finalScore_spec_of_nonzero_scores [OF this] range r
  have "r = finalScore_spec (weighted_components s1 s2 s3 s4 s5)"
    unfolding weighted_def by simp
  with range
  show "fst (calculateCreditScore
            (this\<lparr>creditScoreComponents := weighted_components s1 s2 s3 s4 s5\<rparr>))
         = finalScore_spec (weighted_components s1 s2 s3 s4 s5)"
    and "300 \<le> fst (calculateCreditScore
            (this\<lparr>creditScoreComponents := weighted_components s1 s2 s3 s4 s5\<rparr>))"
    and "fst (calculateCreditScore
            (this\<lparr>creditScoreComponents := weighted_components s1 s2 s3 s4 s5\<rparr>)) \<le> 900"
    unfolding r_def by simp_all
qed

lemma calculateCreditScore_sample:
  "fst (calculateCreditScore
      (fresh\<lparr>creditScoreComponents := weighted_components 50 60 70 80 90\<rparr>)) = 705
   \<and> finalScore_spec (weighted_components 50 60 70 80 90) = 705"
  using calculateCreditScore_nonzero_scores(1) [of 50 60 70 80 90 fresh]
  by (simp add: calculateCreditScore_def sums_of_weighted_components)

text \<open>
  C4 asks for the rounded weighted mean over all five components, for every assignment
  of scores in [0,100]. The guard \<open>component.score && component.weight\<close>, which skips a
  component that is absent, also skips one whose score is 0, and its weight with it. With
  the scores 0, 100, 100, 100, 100 the method divides 75 by the weight 0.75 of the other
  four and returns 900, where the mean over all five gives 750; with 0, 0, 0, 0, 100 it
  returns 900, where the mean gives 360, although 1, 1, 1, 1, 100 gives 365.
\<close>

theorem calculateCreditScore_drops_zero_scores:
  "fst (calculateCreditScore
     (fresh\<lparr>creditScoreComponents := weighted_components 0 100 100 100 100\<rparr>)) = 900
   \<and> finalScore_spec (weighted_components 0 100 100 100 100) = 750
   \<and> fst (calculateCreditScore
     (fresh\<lparr>creditScoreComponents := weighted_components 0 0 0 0 100\<rparr>)) = 900
   \<and> finalScore_spec (weighted_components 0 0 0 0 100) = 360
   \<and> fst (calculateCreditScore
     (fresh\<lparr>creditScoreComponents := weighted_components 1 1 1 1 100\<rparr>)) = 365"
  by (simp add: calculateCreditScore_def sums_of_weighted_components finalScore_spec_def
        component_list_def weighted_components_def number_value_def round_def)

section \<open>The empty payload\<close>

text \<open>
  C2 asks that the engine return, for the empty payload, a result with the final score
  300, the risk category high and a recommendation that is not eligible. It returns no
  result: the three analyses give their default summaries, \<open>calculateScoreComponents\<close>
  then evaluates the unbound \<open>calculateFinancialStabilityScore\<close>, and the entry point
  raises the error of the engine, whatever the store, the clock and the user.
\<close>

theorem empty_input_raises:
  "analyzeSMSTransactions module_scope (or_empty (smsData empty_input)) = getDefaultSMSAnalysis
   \<and> analyzeUPITransactions module_scope (or_empty (upiData empty_input))
       = getDefaultUPIAnalysis
   \<and> analyzeMobileUsage module_scope (or_empty (mobileData empty_input))
       = getDefaultMobileAnalysis
   \<and> calculateScoreComponents module_scope getDefaultSMSAnalysis getDefaultUPIAnalysis
         getDefaultMobileAnalysis empty_input
       = Inl (ReferenceError ''calculateFinancialStabilityScore'')
   \<and> calculateAlternativeCreditScore module_scope db now uid empty_input
       = Inl (Error ''Failed to calculate credit score'')
   \<and> map_sum id alternativeCreditScore
         (calculateAlternativeCreditScore module_scope empty_database 0 ''user'' empty_input)
       \<noteq> Inr (Some 300)"
  by (simp add: or_empty_def empty_input_def analyzeSMSTransactions_empty
        analyzeUPITransactions_empty analyzeMobileUsage_empty
        calculateScoreComponents_raises calculateAlternativeCreditScore_raises)

section \<open>Confidence and the number of SMS records\<close>

text \<open>
  With the helpers of the SMS analysis bound, and every record carrying a message and a
  date, the summary counts every record, and going from 40 to 60 records raises the
  confidence by 0.2.
\<close>

lemma sms_loop_body_counts:
  assumes "extractMerchant sc = Some em" "isSalaryCredit sc = Some isc"
    and "message sms \<noteq> None" "date sms \<noteq> None"
  shows "\<exists>st'. sms_loop_body sc st sms = Inr st'
           \<and> totalTransactions (sms_summary st') = totalTransactions (sms_summary st)"
  using assms
  by (auto simp: sms_loop_body_def parseAmount_def determineTransactionType_def
        extractBalance_def reference_def and_then_def Let_def
        split: transaction_type.splits option.splits)

lemma for_of_counts:
  assumes "extractMerchant sc = Some em" "isSalaryCredit sc = Some isc"
    and "\<forall>sms \<in> set xs. message sms \<noteq> None \<and> date sms \<noteq> None"
  shows "\<exists>st'. for_of (sms_loop_body sc) st xs = Inr st'
           \<and> totalTransactions (sms_summary st') = totalTransactions (sms_summary st)"
  using assms(3)
proof (induction xs arbitrary: st)
  case Nil
  then show ?case by simp
next
  case (Cons x xs)
  from Cons.prems have "message x \<noteq> None" "date x \<noteq> None" by simp_all
  from sms_loop_body_counts [OF assms(1) assms(2) this, of st]
  obtain st1 where st1: "sms_loop_body sc st x = Inr st1"
      "totalTransactions (sms_summary st1) = totalTransactions (sms_summary st)"
    by blast
  from Cons.prems have "\<forall>sms \<in> set xs. message sms \<noteq> None \<and> date sms \<noteq> None" by simp
  from Cons.IH [OF this, of st1] st1 show ?case by simp
qed

lemma analyzeSMSTransactions_counts:
  assumes "extractMerchant sc = Some em" "isSalaryCredit sc = Some isc"
    and "identifyRecurringPayments sc = Some irp"
    and "\<forall>sms \<in> set xs. message sms \<noteq> None \<and> date sms \<noteq> None"
  shows "totalTransactions (analyzeSMSTransactions sc xs) = length xs"
proof (cases "xs = []")
  case True
  then show ?thesis by (simp add: analyzeSMSTransactions_def getDefaultSMSAnalysis_def)
next
  case False
  from for_of_counts [OF assms(1) assms(2) assms(4)]
  obtain st' where "for_of (sms_loop_body sc)
       \<lparr>sms_summary =
          \<lparr>totalTransactions = length xs, creditTransactions = 0,
           debitTransactions = 0, averageBalance = 0, balanceStability = Num 0,
           regularityScore = Num 0, merchantDiversity = 0, salaryCredits = [],
           recurringPayments = []\<rparr>,
        totalBalance = 0, balances = [], merchants = [], monthlyTransactions = []\<rparr>
       xs = Inr st'" "totalTransactions (sms_summary st') = length xs"
    by fastforce
  with False assms(3) show ?thesis
    by (simp add: analyzeSMSTransactions_def Let_def and_then_def reference_def)
qed

lemma confidence_step_with_bound_helpers:
  assumes "extractMerchant sc = Some em" "isSalaryCredit sc = Some isc"
    and "identifyRecurringPayments sc = Some irp"
    and "\<forall>sms \<in> set xs. message sms \<noteq> None \<and> date sms \<noteq> None"
    and "\<forall>sms \<in> set ys. message sms \<noteq> None \<and> date sms \<noteq> None"
    and "length xs = 40" "length ys = 60"
  shows "calculateConfidenceLevel (analyzeSMSTransactions sc ys) u m =
         calculateConfidenceLevel (analyzeSMSTransactions sc xs) u m + 0.2"
  using analyzeSMSTransactions_counts [OF assms(1-3) assms(4)]
    analyzeSMSTransactions_counts [OF assms(1-3) assms(5)] assms(6,7)
  by (simp add: calculateConfidenceLevel_def Let_def)

text \<open>
  C9 asks that going from 40 to 60 SMS records raise the confidence of the engine's
  result by 0.2. In the module as it is written the SMS summary of either list is the
  default, which counts no transaction, so the confidence computed from it is the same
  for both; and the entry point raises before it returns any result.
\<close>

theorem confidence_unchanged_from_40_to_60_sms:
  "totalTransactions (analyzeSMSTransactions module_scope (replicate 40 sample_sms)) = 0
   \<and> totalTransactions (analyzeSMSTransactions module_scope (replicate 60 sample_sms)) = 0
   \<and> calculateConfidenceLevel (analyzeSMSTransactions module_scope (replicate 60 sample_sms)) u m
     = calculateConfidenceLevel (analyzeSMSTransactions module_scope (replicate 40 sample_sms)) u m
   \<and> calculateAlternativeCreditScore module_scope empty_database 0 ''user''
       (empty_input\<lparr>smsData := Some (replicate 60 sample_sms)\<rparr>)
     = Inl (Error ''Failed to calculate credit score'')"
  by (simp add: analyzeSMSTransactions_nonempty calculateAlternativeCreditScore_raises
        getDefaultSMSAnalysis_def)

end
